theory Spec2Isabelle
  imports Main "HOL-Library.Char_ord" "HOL-Library.List_Lexorder" "HOL-Library.Product_Lexorder"
begin

section \<open>Project structure analyzer (project-analyzer/scripts/analyze\_project.py)\<close>

subsection \<open>Strings\<close>

text \<open>
  Python \<open>str\<close> values are modelled as \<open>string\<close>; a non-ASCII character stands as
  its UTF-8 bytes. The helpers follow the \<open>str\<close> methods the analyzer calls.
\<close>

definition startswith :: "string \<Rightarrow> string \<Rightarrow> bool" where
  "startswith s p = (take (length p) s = p)"

text \<open>\<open>sub in s\<close> on two strings: substring containment.\<close>

fun contains :: "string \<Rightarrow> string \<Rightarrow> bool" where
  "contains sub [] = (sub = [])"
| "contains sub (c # cs) = (startswith (c # cs) sub \<or> contains sub cs)"

text \<open>\<open>s.split(sep)[0]\<close> for a non-empty separator: the text before its first occurrence.\<close>

fun before :: "string \<Rightarrow> string \<Rightarrow> string" where
  "before sep [] = []"
| "before sep (c # cs) = (if startswith (c # cs) sep then [] else c # before sep cs)"

text \<open>The ASCII characters for which \<open>str.isspace\<close> holds.\<close>

definition is_space :: "char \<Rightarrow> bool" where
  "is_space c = (c \<in> set [CHR 0x09, CHR 0x0A, CHR 0x0B, CHR 0x0C, CHR 0x0D,
                            CHR 0x1C, CHR 0x1D, CHR 0x1E, CHR 0x1F, CHR '' ''])"

definition strip :: "string \<Rightarrow> string" where
  "strip s = rev (dropWhile is_space (rev (dropWhile is_space s)))"

text \<open>\<open>str.lower\<close>, on the ASCII letters.\<close>

definition lower_char :: "char \<Rightarrow> char" where
  "lower_char c = (if CHR ''A'' \<le> c \<and> c \<le> CHR ''Z'' then char_of (of_char c + (32::nat)) else c)"

definition lower :: "string \<Rightarrow> string" where
  "lower s = map lower_char s"

text \<open>
  \<open>PurePath.suffix\<close>: with \<open>i = name.rfind('.')\<close>, the text from \<open>i\<close> on when
  \<open>0 < i < len(name) - 1\<close>, else the empty string.
\<close>

definition suffix_of :: "string \<Rightarrow> string" where
  "suffix_of name =
     (if CHR ''.'' \<notin> set name then []
      else let i = length name - 1 - length (takeWhile (\<lambda>c. c \<noteq> CHR ''.'') (rev name))
           in if 0 < i \<and> i + 1 < length name then drop i name else [])"

subsection \<open>The file system and parsed JSON\<close>

text \<open>What \<open>json.load\<close> returns. The value of a number is never inspected.\<close>

datatype json =
    JNull
  | JBool bool
  | JNum int
  | JStr string
  | JArr "json list"
  | JObj "(string \<times> json) list"

text \<open>
  What a \<open>Path\<close> points at. \<open>Missing\<close>: nothing exists there (as a directory entry, a
  dangling link). \<open>File t j\<close>: a regular file; \<open>t\<close> is its text, \<open>None\<close> when opening or
  reading it raises; \<open>j\<close> is what \<open>json.load\<close> returns on it, \<open>None\<close> when that raises.
  \<open>Dir r es\<close>: a directory with entries \<open>es\<close> in enumeration order; \<open>r\<close> says whether
  listing it is permitted (looking a name up in it always is).
\<close>

datatype node =
    Missing
  | File "string option" "json option"
  | Dir bool "(string \<times> node) list"

type_synonym item = "string \<times> node"

datatype exn = FileNotFoundError | NotADirectoryError | PermissionError | AttributeError

fun is_dir :: "node \<Rightarrow> bool" where
  "is_dir (Dir r es) = True"
| "is_dir n = False"

fun is_file :: "node \<Rightarrow> bool" where
  "is_file (File t j) = True"
| "is_file n = False"

fun exists_node :: "node \<Rightarrow> bool" where
  "exists_node Missing = False"
| "exists_node n = True"

fun iterdir :: "node \<Rightarrow> exn + item list" where
  "iterdir Missing = Inl FileNotFoundError"
| "iterdir (File t j) = Inl NotADirectoryError"
| "iterdir (Dir r es) = (if r then Inr es else Inl PermissionError)"

text \<open>\<open>path / name\<close>: the entry of that name, \<open>Missing\<close> when there is none.\<close>

fun child :: "node \<Rightarrow> string \<Rightarrow> node" where
  "child (Dir r es) name = (case map_of es name of Some c \<Rightarrow> c | None \<Rightarrow> Missing)"
| "child n name = Missing"

subsection \<open>The analyzer's state\<close>

text \<open>
  \<open>file_stats\<close> is a \<open>defaultdict(int)\<close>, \<open>config_files\<close> a dict: association lists in
  insertion order, the order Python iterates them in. Relative paths are lists of
  path components. \<open>project_type\<close> is \<open>None\<close> while the attribute has not been
  assigned: the constructor does not assign it.
\<close>

type_synonym hist = "(string \<times> nat) list"

record dependencies =
  npm :: "(string list \<times> string list) option"
  pip :: "string list option"

record analyzer =
  project_path :: node
  file_stats :: hist
  project_type :: "string option"
  entry_points :: "string list list"
  config_files :: "(string list \<times> string) list"
  deps :: dependencies

definition ignore_dirs :: "string list" where
  "ignore_dirs = [''.git'', ''node_modules'', ''__pycache__'', ''.venv'', ''venv'',
                  ''dist'', ''build'', ''.next'', ''coverage'', ''.pytest_cache'',
                  ''vendor'', ''target'', ''bin'', ''obj'']"

definition init :: "node \<Rightarrow> analyzer" where
  "init p = \<lparr> project_path = p, file_stats = [], project_type = None,
              entry_points = [], config_files = [],
              deps = \<lparr> npm = None, pip = None \<rparr> \<rparr>"

subsection \<open>Tree walker and statistics collector\<close>

text \<open>\<open>stats[ext] += 1\<close> on a \<open>defaultdict(int)\<close>.\<close>

fun bump :: "string \<Rightarrow> hist \<Rightarrow> hist" where
  "bump k [] = [(k, 1)]"
| "bump k ((k', c) # h) = (if k = k' then (k', c + 1) # h else (k', c) # bump k h)"

definition skipped_hidden :: "string \<Rightarrow> bool" where
  "skipped_hidden name = (startswith name ''.'' \<and> name \<notin> set [''.env'', ''.env.example''])"

text \<open>
  \<open>_scan_directory\<close>, with the loop over \<open>path.iterdir()\<close> as \<open>scan_items\<close>. Only
  \<open>PermissionError\<close> is caught.
\<close>

function scan_directory :: "node \<Rightarrow> nat \<Rightarrow> nat \<Rightarrow> hist \<Rightarrow> exn + hist"
  and scan_items :: "item list \<Rightarrow> nat \<Rightarrow> nat \<Rightarrow> hist \<Rightarrow> exn + hist" where
  "scan_directory path depth max_depth stats =
     (if depth > max_depth then Inr stats
      else case iterdir path of
             Inl PermissionError \<Rightarrow> Inr stats
           | Inl e \<Rightarrow> Inl e
           | Inr items \<Rightarrow> scan_items items depth max_depth stats)"
| "scan_items [] depth max_depth stats = Inr stats"
| "scan_items (it # rest) depth max_depth stats =
     (if skipped_hidden (fst it) then scan_items rest depth max_depth stats
      else if is_dir (snd it) \<and> fst it \<notin> set ignore_dirs then
        (case scan_directory (snd it) (depth + 1) max_depth stats of
           Inl e \<Rightarrow> Inl e
         | Inr stats' \<Rightarrow> scan_items rest depth max_depth stats')
      else if is_file (snd it) then
        scan_items rest depth max_depth (bump (lower (suffix_of (fst it))) stats)
      else scan_items rest depth max_depth stats)"
  by pat_completeness auto

lemma size_items_le:
  "size_list (\<lambda>x. size (snd x)) es \<le> size_list (size_prod (\<lambda>x. 0) size) (es :: item list)"
  by (induction es) (auto simp: size_prod_simp)

lemma iterdir_size: "iterdir p = Inr es \<Longrightarrow> size_list (\<lambda>x. size (snd x)) es < size p"
  using size_items_le [of es] by (cases p) (auto split: if_splits)

termination scan_directory
  by (relation "measure (\<lambda>x. case x of Inl (p, _) \<Rightarrow> size p
                                   | Inr (its, _) \<Rightarrow> size_list (\<lambda>x. size (snd x)) its)")
     (auto dest: iterdir_size)

subsection \<open>Classifier\<close>

text \<open>\<open>open(path)\<close> followed by \<open>json.load\<close>; \<open>None\<close> when either raises.\<close>

fun load_json :: "node \<Rightarrow> json option" where
  "load_json (File (Some t) (Some j)) = Some j"
| "load_json n = None"

text \<open>\<open>k in v\<close> for a string \<open>k\<close>; \<open>None\<close> is the \<open>TypeError\<close> of a value that is no container.\<close>

fun py_in :: "string \<Rightarrow> json \<Rightarrow> bool option" where
  "py_in k (JObj kv) = Some (k \<in> set (map fst kv))"
| "py_in k (JArr xs) = Some (JStr k \<in> set xs)"
| "py_in k (JStr s) = Some (contains k s)"
| "py_in k v = None"

text \<open>\<open>v.get(k, {})\<close>; \<open>None\<close> is the \<open>AttributeError\<close> of a value that is no dict.\<close>

fun py_get :: "json \<Rightarrow> string \<Rightarrow> json option" where
  "py_get (JObj kv) k = Some (case map_of kv k of Some v \<Rightarrow> v | None \<Rightarrow> JObj [])"
| "py_get v k = None"

text \<open>The keys of a dict, for \<open>{**v}\<close> and \<open>v.keys()\<close>; \<open>None\<close> when \<open>v\<close> is no dict.\<close>

fun dict_keys :: "json \<Rightarrow> string list option" where
  "dict_keys (JObj kv) = Some (map fst kv)"
| "dict_keys v = None"

definition framework_label :: "string list \<Rightarrow> string" where
  "framework_label ks =
     (if ''react'' \<in> set ks \<or> ''next'' \<in> set ks then ''React/Next.js Project''
      else if ''vue'' \<in> set ks then ''Vue.js Project''
      else if ''express'' \<in> set ks then ''Node.js/Express Project''
      else ''Node.js Project'')"

text \<open>
  How the body of the \<open>try\<close> on the parsed manifest ends: with an exception, without
  assigning \<open>project_type\<close>, or assigning it.
\<close>

datatype tried = Raised | Unassigned | Assigned string

definition merged_keys :: "json \<Rightarrow> string list option" where
  "merged_keys pkg =
     (case py_get pkg ''dependencies'' of None \<Rightarrow> None
      | Some d \<Rightarrow>
        (case dict_keys d of None \<Rightarrow> None
         | Some ks \<Rightarrow>
           (case py_get pkg ''devDependencies'' of None \<Rightarrow> None
            | Some d' \<Rightarrow>
              (case dict_keys d' of None \<Rightarrow> None
               | Some ks' \<Rightarrow> Some (ks @ ks')))))"

definition manifest_rule :: "json \<Rightarrow> tried" where
  "manifest_rule pkg =
     (case py_in ''dependencies'' pkg of None \<Rightarrow> Raised
      | Some a \<Rightarrow>
        (case (if a then Some True else py_in ''devDependencies'' pkg) of None \<Rightarrow> Raised
         | Some b \<Rightarrow>
           if b then (case merged_keys pkg of None \<Rightarrow> Raised
                      | Some ks \<Rightarrow> Assigned (framework_label ks))
           else Unassigned))"

definition ext_map :: "(string \<times> string) list" where
  "ext_map = [(''.py'', ''Python Project''), (''.js'', ''JavaScript Project''),
              (''.ts'', ''TypeScript Project''), (''.java'', ''Java Project''),
              (''.go'', ''Go Project''), (''.rs'', ''Rust Project''),
              (''.rb'', ''Ruby Project''), (''.php'', ''PHP Project'')]"

text \<open>\<open>max(items, key=lambda x: x[1])\<close>: the first item with the greatest count.\<close>

fun max_by_count :: "string \<times> nat \<Rightarrow> hist \<Rightarrow> string \<times> nat" where
  "max_by_count best [] = best"
| "max_by_count best (x # xs) = max_by_count (if snd best < snd x then x else best) xs"

definition fallback_type :: "hist \<Rightarrow> string" where
  "fallback_type stats =
     (case stats of [] \<Rightarrow> ''Unknown Project Type''
      | x # xs \<Rightarrow>
        (case map_of ext_map (fst (max_by_count x xs)) of
           Some t \<Rightarrow> t | None \<Rightarrow> ''Unknown Project Type''))"

text \<open>
  \<open>_identify_project_type\<close>. The listing of the root is not guarded; the bare
  \<open>except\<close> around the manifest catches whatever opening, parsing or inspecting it
  raises. \<open>'.csproj' in str(root_files)\<close> searches the printed set, and finds the text
  exactly when a file name contains it.
\<close>

definition identify_project_type :: "analyzer \<Rightarrow> exn + analyzer" where
  "identify_project_type self =
     (case iterdir (project_path self) of Inl e \<Rightarrow> Inl e
      | Inr items \<Rightarrow>
        let root_files = [fst f. f \<leftarrow> items, is_file (snd f)] in
        if ''package.json'' \<in> set root_files then
          (case load_json (child (project_path self) ''package.json'') of
             None \<Rightarrow> Inr (self\<lparr>project_type := Some ''JavaScript Project''\<rparr>)
           | Some pkg \<Rightarrow>
             (case manifest_rule pkg of
                Raised \<Rightarrow> Inr (self\<lparr>project_type := Some ''JavaScript Project''\<rparr>)
              | Unassigned \<Rightarrow> Inr self
              | Assigned t \<Rightarrow> Inr (self\<lparr>project_type := Some t\<rparr>)))
        else if ''Cargo.toml'' \<in> set root_files then
          Inr (self\<lparr>project_type := Some ''Rust Project''\<rparr>)
        else if ''go.mod'' \<in> set root_files then
          Inr (self\<lparr>project_type := Some ''Go Project''\<rparr>)
        else if ''pom.xml'' \<in> set root_files \<or> ''build.gradle'' \<in> set root_files then
          Inr (self\<lparr>project_type := Some ''Java Project''\<rparr>)
        else if ''requirements.txt'' \<in> set root_files \<or> ''pyproject.toml'' \<in> set root_files
                \<or> ''setup.py'' \<in> set root_files then
          Inr (self\<lparr>project_type := Some ''Python Project''\<rparr>)
        else if ''Gemfile'' \<in> set root_files then
          Inr (self\<lparr>project_type := Some ''Ruby Project''\<rparr>)
        else if list_ex (contains ''.csproj'') root_files then
          Inr (self\<lparr>project_type := Some ''C# Project''\<rparr>)
        else Inr (self\<lparr>project_type := Some (fallback_type (file_stats self))\<rparr>))"

subsection \<open>Entry-point locator and config cataloger\<close>

text \<open>
  \<open>os.walk(dir)\<close>, top-down: for each directory it can list, the triple of its path
  (here relative to \<open>dir\<close>), its subdirectory names and its other names, then the
  walks of its subdirectories in order. A directory it cannot list yields nothing
  (\<open>onerror\<close> is \<open>None\<close>). \<open>keep\<close> is the caller's pruning of \<open>dirs\<close> in place,
  which the generator reads back before it descends.
\<close>

function os_walk :: "(string \<Rightarrow> bool) \<Rightarrow> node \<Rightarrow> string list
                      \<Rightarrow> (string list \<times> string list \<times> string list) list"
  and walk_dirs :: "(string \<Rightarrow> bool) \<Rightarrow> item list \<Rightarrow> string list
                      \<Rightarrow> (string list \<times> string list \<times> string list) list" where
  "os_walk keep dir rel =
     (case iterdir dir of Inl e \<Rightarrow> []
      | Inr items \<Rightarrow>
          (rel, [fst d. d \<leftarrow> items, is_dir (snd d)], [fst f. f \<leftarrow> items, \<not> is_dir (snd f)])
          # walk_dirs keep items rel)"
| "walk_dirs keep [] rel = []"
| "walk_dirs keep (d # rest) rel =
     (if is_dir (snd d) \<and> keep (fst d)
      then os_walk keep (snd d) (rel @ [fst d]) @ walk_dirs keep rest rel
      else walk_dirs keep rest rel)"
  by pat_completeness auto

termination os_walk
  by (relation "measure (\<lambda>x. case x of Inl (k, p, _) \<Rightarrow> size p
                                   | Inr (k, its, _) \<Rightarrow> size_list (\<lambda>x. size (snd x)) its)")
     (auto dest: iterdir_size)

definition entry_candidates :: "string list" where
  "entry_candidates = [''main.py'', ''app.py'', ''server.py'', ''run.py'', ''__init__.py'',
                       ''index.js'', ''index.ts'', ''server.js'', ''app.js'', ''main.js'',
                       ''main.go'', ''main.rs'', ''Main.java'', ''Program.cs'',
                       ''index.html'', ''index.php'']"

definition find_entry_points :: "analyzer \<Rightarrow> analyzer" where
  "find_entry_points self =
     self\<lparr>entry_points := entry_points self @
       concat (map (\<lambda>(root, dirs, files). [root @ [filename]. filename \<leftarrow> files,
                                                 filename \<in> set entry_candidates])
                   (os_walk (\<lambda>d. d \<notin> set ignore_dirs) (project_path self) []))\<rparr>"

definition config_patterns :: "(string \<times> string) list" where
  "config_patterns =
     [(''package.json'', ''Node.js dependencies and scripts''),
      (''tsconfig.json'', ''TypeScript configuration''),
      (''webpack.config.js'', ''Webpack bundler configuration''),
      (''vite.config.js'', ''Vite bundler configuration''),
      (''next.config.js'', ''Next.js framework configuration''),
      (''requirements.txt'', ''Python dependencies''),
      (''pyproject.toml'', ''Python project metadata and dependencies''),
      (''setup.py'', ''Python package setup''),
      (''Pipfile'', ''Pipenv dependencies''),
      (''Cargo.toml'', ''Rust dependencies and package info''),
      (''go.mod'', ''Go module dependencies''),
      (''pom.xml'', ''Maven dependencies''),
      (''build.gradle'', ''Gradle build configuration''),
      (''Gemfile'', ''Ruby dependencies''),
      (''composer.json'', ''PHP dependencies''),
      (''.env'', ''Environment variables''),
      (''.env.example'', ''Example environment variables''),
      (''docker-compose.yml'', ''Docker services configuration''),
      (''Dockerfile'', ''Docker image definition''),
      (''.eslintrc'', ''ESLint code quality rules''),
      (''.prettierrc'', ''Prettier code formatting''),
      (''jest.config.js'', ''Jest testing framework''),
      (''pytest.ini'', ''Pytest configuration''),
      (''README.md'', ''Project documentation'')]"

text \<open>\<open>d[k] = v\<close> on a dict: a present key keeps its place.\<close>

fun dict_set :: "'k \<Rightarrow> 'v \<Rightarrow> ('k \<times> 'v) list \<Rightarrow> ('k \<times> 'v) list" where
  "dict_set k v [] = [(k, v)]"
| "dict_set k v ((k', v') # d) = (if k = k' then (k', v) # d else (k', v') # dict_set k v d)"

text \<open>
  The inner loop of \<open>_analyze_config_files\<close> over the \<open>files\<close> of one directory, and the
  outer loop over the walk. The walk is not pruned; a directory that is neither the
  root nor a child of the root is passed over.
\<close>

fun catalog_files :: "string list \<Rightarrow> string list \<Rightarrow> (string list \<times> string) list
                        \<Rightarrow> (string list \<times> string) list" where
  "catalog_files root [] cf = cf"
| "catalog_files root (filename # files) cf =
     (case map_of config_patterns filename of
        Some desc \<Rightarrow> catalog_files root files (dict_set (root @ [filename]) desc cf)
      | None \<Rightarrow> catalog_files root files cf)"

fun catalog_walk :: "(string list \<times> string list \<times> string list) list
                       \<Rightarrow> (string list \<times> string) list \<Rightarrow> (string list \<times> string) list" where
  "catalog_walk [] cf = cf"
| "catalog_walk ((root, dirs, files) # w) cf =
     (if root \<noteq> [] \<and> butlast root \<noteq> [] then catalog_walk w cf
      else catalog_walk w (catalog_files root files cf))"

definition analyze_config_files :: "analyzer \<Rightarrow> analyzer" where
  "analyze_config_files self =
     self\<lparr>config_files :=
       catalog_walk (os_walk (\<lambda>d. True) (project_path self) []) (config_files self)\<rparr>"

subsection \<open>Dependency extractor\<close>

text \<open>
  Iterating a text file: its lines, each with its line end. The text is the decoded
  one, with every line end already \<open>\n\<close>.
\<close>

fun file_lines :: "string \<Rightarrow> string list" where
  "file_lines [] = []"
| "file_lines (c # cs) =
     (if c = CHR 0x0A then [c] # file_lines cs
      else case file_lines cs of [] \<Rightarrow> [[c]] | l # ls \<Rightarrow> (c # l) # ls)"

definition requirement_name :: "string \<Rightarrow> string" where
  "requirement_name line = strip (before ''>='' (before ''=='' line))"

definition requirement_names :: "string list \<Rightarrow> string list" where
  "requirement_names ls =
     [requirement_name line. line \<leftarrow> ls, strip line \<noteq> [] \<and> \<not> startswith line ''#'']"

fun read_text :: "node \<Rightarrow> string option" where
  "read_text (File t j) = t"
| "read_text n = None"

definition npm_lists :: "json \<Rightarrow> (string list \<times> string list) option" where
  "npm_lists pkg =
     (case py_get pkg ''dependencies'' of None \<Rightarrow> None
      | Some d \<Rightarrow>
        (case py_get pkg ''devDependencies'' of None \<Rightarrow> None
         | Some dev_deps \<Rightarrow>
           (case dict_keys d of None \<Rightarrow> None
            | Some ks \<Rightarrow>
              (case dict_keys dev_deps of None \<Rightarrow> None
               | Some dks \<Rightarrow> Some (take 10 ks, take 10 dks)))))"

definition analyze_dependencies :: "analyzer \<Rightarrow> analyzer" where
  "analyze_dependencies self =
     (let pkg_json = child (project_path self) ''package.json'';
          self1 =
            (if exists_node pkg_json then
               (case load_json pkg_json of None \<Rightarrow> self
                | Some pkg \<Rightarrow>
                  (case npm_lists pkg of None \<Rightarrow> self
                   | Some l \<Rightarrow> self\<lparr>deps := (deps self)\<lparr>npm := Some l\<rparr>\<rparr>))
             else self);
          req_txt = child (project_path self) ''requirements.txt''
      in if exists_node req_txt then
           (case read_text req_txt of None \<Rightarrow> self1
            | Some t \<Rightarrow>
              self1\<lparr>deps := (deps self1)\<lparr>pip := Some (take 15 (requirement_names (file_lines t)))\<rparr>\<rparr>)
         else self1)"

subsection \<open>Tree renderer\<close>

text \<open>The connectors, as UTF-8: an elbow or a tee with two dashes and a space; a bar or a space with three spaces.\<close>

definition elbow :: string where
  "elbow = [CHR 0xE2, CHR 0x94, CHR 0x94, CHR 0xE2, CHR 0x94, CHR 0x80,
            CHR 0xE2, CHR 0x94, CHR 0x80, CHR 0x20]"

definition tee :: string where
  "tee = [CHR 0xE2, CHR 0x94, CHR 0x9C, CHR 0xE2, CHR 0x94, CHR 0x80,
          CHR 0xE2, CHR 0x94, CHR 0x80, CHR 0x20]"

definition bar :: string where
  "bar = [CHR 0xE2, CHR 0x94, CHR 0x82, CHR 0x20, CHR 0x20, CHR 0x20]"

definition blank :: string where
  "blank = [CHR 0x20, CHR 0x20, CHR 0x20, CHR 0x20]"

text \<open>
  \<open>items\<close> of \<open>add_to_tree\<close>: the entries sorted by \<open>(not is_dir, name)\<close>, then
  without the names that start with a dot or are in the ignore set.
\<close>

definition tree_key :: "item \<Rightarrow> bool \<times> string" where
  "tree_key x = (\<not> is_dir (snd x), fst x)"

definition tree_items :: "item list \<Rightarrow> item list" where
  "tree_items es =
     [i \<leftarrow> sort_key tree_key es. \<not> startswith (fst i) ''.'' \<and> fst i \<notin> set ignore_dirs]"

definition tree_line :: "string \<Rightarrow> bool \<Rightarrow> item \<Rightarrow> string" where
  "tree_line prefix is_last it =
     prefix @ (if is_last then elbow else tee) @ fst it @ (if is_dir (snd it) then ''/'' else [])"

text \<open>
  \<open>add_to_tree\<close>, returning the lines it appends; \<open>add_items n i rest\<close> is the loop over
  \<open>enumerate(items[:20])\<close> at index \<open>i\<close>, with \<open>n = len(items)\<close>.
\<close>

function add_to_tree :: "nat \<Rightarrow> node \<Rightarrow> string \<Rightarrow> nat \<Rightarrow> exn + string list"
  and add_items :: "nat \<Rightarrow> nat \<Rightarrow> nat \<Rightarrow> item list \<Rightarrow> string \<Rightarrow> nat \<Rightarrow> exn + string list" where
  "add_to_tree max_depth path prefix depth =
     (if depth \<ge> max_depth then Inr []
      else case iterdir path of
             Inl PermissionError \<Rightarrow> Inr []
           | Inl e \<Rightarrow> Inl e
           | Inr es \<Rightarrow>
               let items = tree_items es
               in add_items max_depth (length items) 0 (take 20 items) prefix depth)"
| "add_items max_depth n i [] prefix depth = Inr []"
| "add_items max_depth n i (it # rest) prefix depth =
     (let is_last = (int i = int n - 1);
          line = tree_line prefix is_last it
      in if is_dir (snd it) then
           (case add_to_tree max_depth (snd it) (prefix @ (if is_last then blank else bar)) (depth + 1) of
              Inl e \<Rightarrow> Inl e
            | Inr sub \<Rightarrow>
               (case add_items max_depth n (i + 1) rest prefix depth of
                  Inl e \<Rightarrow> Inl e
                | Inr below \<Rightarrow> Inr (line # sub @ below)))
         else
           (case add_items max_depth n (i + 1) rest prefix depth of
              Inl e \<Rightarrow> Inl e
            | Inr below \<Rightarrow> Inr (line # below)))"
  by pat_completeness auto

termination add_to_tree
  by (relation "(\<lambda>x. case x of Inl (m, p, pre, d) \<Rightarrow> m - d | Inr (m, n, i, its, pre, d) \<Rightarrow> m - d)
                <*mlex*>
                measure (\<lambda>x. case x of Inl (m, p, pre, d) \<Rightarrow> if d \<ge> m then 0 else 21
                                     | Inr (m, n, i, its, pre, d) \<Rightarrow> length its)")
     (auto simp: mlex_prod_def wf_mlex)

definition get_tree_structure :: "string \<Rightarrow> analyzer \<Rightarrow> exn + string list" where
  "get_tree_structure name self =
     (case add_to_tree 3 (project_path self) [] 0 of
        Inl e \<Rightarrow> Inl e
      | Inr t \<Rightarrow> Inr ((name @ ''/'') # t))"

subsection \<open>Report assembler\<close>

definition generate_architecture_notes :: "analyzer \<Rightarrow> string list" where
  "generate_architecture_notes self =
     (let p = project_path self;
          components_exists = (exists_node (child p ''components'')
                               \<or> exists_node (child (child p ''src'') ''components''))
      in (if components_exists then [''Frontend component-based architecture detected''] else [])
         @ (if exists_node (child p ''api'') \<or> exists_node (child p ''routes'')
            then [''API/routing layer present''] else [])
         @ (if exists_node (child p ''models'') \<or> exists_node (child (child p ''src'') ''models'')
            then [''Data models layer detected''] else [])
         @ (if exists_node (child p ''tests'') \<or> exists_node (child p ''test'')
            then [''Test suite present''] else [])
         @ (if exists_node (child p ''docs'') then [''Documentation directory found''] else []))"

record report =
  r_project_type :: string
  r_languages :: hist
  r_structure :: "string list"
  r_entry_points :: "string list list"
  r_config_files :: "(string list \<times> string) list"
  r_dependencies :: dependencies
  r_architecture_notes :: "string list"

text \<open>
  \<open>analyze\<close>. Reading \<open>self.project_type\<close> raises \<open>AttributeError\<close> when the attribute
  was never assigned; the dict display reads it before it renders the tree.
  \<open>name\<close> is \<open>project_path.name\<close>.
\<close>

definition analyze :: "string \<Rightarrow> analyzer \<Rightarrow> exn + report" where
  "analyze name self =
     (case scan_directory (project_path self) 0 5 (file_stats self) of
        Inl e \<Rightarrow> Inl e
      | Inr stats \<Rightarrow>
        (case identify_project_type (self\<lparr>file_stats := stats\<rparr>) of
           Inl e \<Rightarrow> Inl e
         | Inr self2 \<Rightarrow>
           let self5 = analyze_dependencies (analyze_config_files (find_entry_points self2))
           in (case project_type self5 of
                 None \<Rightarrow> Inl AttributeError
               | Some t \<Rightarrow>
                 (case get_tree_structure name self5 of
                    Inl e \<Rightarrow> Inl e
                  | Inr tree \<Rightarrow>
                      Inr \<lparr> r_project_type = t,
                            r_languages = file_stats self5,
                            r_structure = tree,
                            r_entry_points = entry_points self5,
                            r_config_files = config_files self5,
                            r_dependencies = deps self5,
                            r_architecture_notes = generate_architecture_notes self5 \<rparr>))))"

text \<open>
  \<open>main\<close>: how the process ends. \<open>fs\<close> resolves the path argument to the name of the
  path and what is there. An exception that leaves \<open>analyze\<close> is not caught: the
  interpreter prints the traceback and exits with status 1, before anything of the
  report is printed.
\<close>

datatype outcome = Usage | Traceback exn | Printed report

fun exit_code :: "outcome \<Rightarrow> nat" where
  "exit_code Usage = 1"
| "exit_code (Traceback e) = 1"
| "exit_code (Printed r) = 0"

definition main :: "string list \<Rightarrow> (string \<Rightarrow> string \<times> node) \<Rightarrow> outcome" where
  "main argv fs =
     (if length argv < 2 then Usage
      else let project_path = argv ! 1
           in case analyze (fst (fs project_path)) (init (snd (fs project_path))) of
                Inl e \<Rightarrow> Traceback e
              | Inr results \<Rightarrow> Printed results)"

subsection \<open>Example inputs\<close>

text \<open>The resolution of a path argument that names the path itself and finds \<open>n\<close> there.\<close>

definition fs_of :: "node \<Rightarrow> string \<Rightarrow> string \<times> node" where
  "fs_of n p = (p, n)"

text \<open>A manifest with twelve dependencies beside a requirements file of seventeen lines.\<close>

definition many_deps :: "(string \<times> json) list" where
  "many_deps = map (\<lambda>n. (n, JStr ''1.0''))
     [''a'', ''b'', ''c'', ''d'', ''e'', ''f'', ''g'', ''h'', ''i'', ''j'', ''k'', ''l'']"

definition capped_root :: node where
  "capped_root = Dir True
     [(''package.json'', File (Some ''{}'') (Some (JObj [(''dependencies'', JObj many_deps)]))),
      (''requirements.txt'',
       File (Some ''r1\<newline>r2\<newline>r3\<newline>r4\<newline>r5\<newline>r6\<newline>r7\<newline>r8\<newline>r9\<newline>r10\<newline>r11\<newline>r12\<newline>r13\<newline>r14\<newline>r15\<newline>r16\<newline>r17\<newline>'') None)]"

text \<open>A root with a Rust manifest listed before a Node-style manifest that names Vue.\<close>

definition node_and_rust_root :: node where
  "node_and_rust_root = Dir True
     [(''Cargo.toml'', File (Some ''[package]'') None),
      (''package.json'',
       File (Some ''{}'') (Some (JObj [(''devDependencies'', JObj [(''vue'', JStr ''^3.0.0'')])])))]"

subsection \<open>Paths to files\<close>



subsection \<open>The files of a tree\<close>

text \<open>
  Every regular file that listing can reach from a directory, as its relative path,
  with no filter applied.
\<close>

function all_files :: "node \<Rightarrow> string list list"
  and files_in :: "item list \<Rightarrow> string list list" where
  "all_files d = (case iterdir d of Inl e \<Rightarrow> [] | Inr es \<Rightarrow> files_in es)"
| "files_in [] = []"
| "files_in (it # rest) =
     (if is_file (snd it) then [[fst it]] else map ((#) (fst it)) (all_files (snd it)))
     @ files_in rest"
  by pat_completeness auto

termination all_files
  by (relation "measure (\<lambda>x. case x of Inl p \<Rightarrow> size p
                                   | Inr its \<Rightarrow> size_list (\<lambda>x. size (snd x)) its)")
     (auto dest: iterdir_size)

text \<open>
  The files the statistics walk counts, by their path of at most \<open>k\<close> components: no
  component is a name the walk skips (a leading dot, \<open>.env\<close> and \<open>.env.example\<close>
  excepted), and no directory on the path is in the ignore set.
\<close>

definition counted :: "nat \<Rightarrow> string list \<Rightarrow> bool" where
  "counted k p = (length p \<le> k \<and> (\<forall>n \<in> set p. \<not> skipped_hidden n)
                  \<and> (\<forall>d \<in> set (butlast p). d \<notin> set ignore_dirs))"

text \<open>
  The same count with "hidden" read as in the specification's claim: every name with
  a leading dot is hidden.
\<close>

definition non_hidden_non_ignored :: "nat \<Rightarrow> string list \<Rightarrow> bool" where
  "non_hidden_non_ignored k p = (length p \<le> k \<and> (\<forall>n \<in> set p. \<not> startswith n ''.'')
                  \<and> (\<forall>d \<in> set (butlast p). d \<notin> set ignore_dirs))"

text \<open>The sum of all counts of a histogram.\<close>

definition total :: "hist \<Rightarrow> nat" where
  "total h = sum_list (map snd h)"

text \<open>
  A tree with an allow-listed and another hidden file, a version-control and a build
  directory, and a directory that cannot be listed.
\<close>

definition walk_root :: node where
  "walk_root = Dir True
     [(''.env'', File None None),
      (''.hidden'', File None None),
      (''a.py'', File None None),
      (''.git'', Dir True [(''config'', File None None)]),
      (''build'', Dir True [(''out.js'', File None None)]),
      (''src'', Dir True [(''b.PY'', File None None), (''locked'', Dir False [(''c.py'', File None None)])])]"

subsection \<open>Version pins\<close>



subsection \<open>Reading the rendered lines\<close>











section \<open>Properties\<close>

subsection \<open>Classification of a manifest without dependency keys\<close>

text \<open>
  Claim C1 (the classifier is total and labels every root with a parseable
  \<open>package.json\<close>). The code misses a case: a manifest that parses to an object with
  neither a \<open>dependencies\<close> nor a \<open>devDependencies\<close> key (here \<open>{}\<close>) reaches no
  assignment. \<open>_identify_project_type\<close> returns with the analyzer unchanged, so
  \<open>project_type\<close> is still unassigned: no label, and not the generic Node label.
\<close>

theorem manifest_without_dependency_keys_unclassified:
  "identify_project_type (init (Dir True [(''package.json'', File (Some ''{}'') (Some (JObj [])))]))
     = Inr (init (Dir True [(''package.json'', File (Some ''{}'') (Some (JObj [])))]))
   \<and> project_type (init (Dir True [(''package.json'', File (Some ''{}'') (Some (JObj [])))])) = None"
  by (simp add: identify_project_type_def init_def manifest_rule_def)

text \<open>
  Claim C2 (every run on an existing readable root returns a report). On the same
  root, a readable directory holding only the manifest \<open>{}\<close>, \<open>analyze\<close> raises
  \<open>AttributeError\<close> when it reads the unassigned \<open>project_type\<close>, and \<open>main\<close> ends with
  that traceback instead of a report.
\<close>

theorem analyze_raises_on_manifest_without_dependency_keys:
  "analyze ''demo'' (init (Dir True [(''package.json'', File (Some ''{}'') (Some (JObj [])))]))
     = Inl AttributeError
   \<and> main [''analyze_project.py'', ''demo'']
          (fs_of (Dir True [(''package.json'', File (Some ''{}'') (Some (JObj [])))]))
     = Traceback AttributeError"
  by code_simp

subsection \<open>The path argument\<close>

text \<open>
  Claim C3, as stated (the root is validated before any operation, no walk is
  attempted first), fails: for a root directory that cannot be listed, the statistics
  walk runs and returns normally with an empty histogram, and only the classifier's
  own listing raises, ending the run with a traceback.
\<close>

theorem unreadable_root_walked_before_failure:
  "scan_directory (Dir False []) 0 5 [] = Inr []
   \<and> identify_project_type (init (Dir False [])) = Inl PermissionError
   \<and> main [''analyze_project.py'', ''locked''] (fs_of (Dir False [])) = Traceback PermissionError"
  by code_simp

text \<open>
  Claim C3, amended: \<open>main\<close> checks only that a path argument is given, and then
  exits with the usage message and status 1. A path at which there is no listable
  directory is not validated: the analysis starts and the run ends with the uncaught
  exception of the first listing that is not caught (\<open>FileNotFoundError\<close> for a
  missing path and \<open>NotADirectoryError\<close> for a file, both from the statistics walk;
  \<open>PermissionError\<close> for an unreadable directory, from the classifier), with status 1
  and no report.
\<close>

theorem main_invalid_root:
  assumes "length argv < 2 \<or> (\<forall>es. snd (fs (argv ! 1)) \<noteq> Dir True es)"
  shows "main argv fs =
           (if length argv < 2 then Usage
            else Traceback (case snd (fs (argv ! 1)) of
                              Missing \<Rightarrow> FileNotFoundError
                            | File t j \<Rightarrow> NotADirectoryError
                            | Dir r es \<Rightarrow> PermissionError))
         \<and> exit_code (main argv fs) = 1"
proof (cases "length argv < 2")
  case True
  then show ?thesis by (simp add: main_def)
next
  case False
  with assms have nl: "\<forall>es. snd (fs (argv ! 1)) \<noteq> Dir True es" by simp
  show ?thesis
  proof (cases "snd (fs (argv ! 1))")
    case Missing
    with False show ?thesis
      by (simp add: main_def analyze_def init_def)
  next
    case (File t j)
    with False show ?thesis
      by (simp add: main_def analyze_def init_def)
  next
    case (Dir r es)
    with nl have "\<not> r" by auto
    with Dir False show ?thesis
      by (simp add: main_def analyze_def init_def identify_project_type_def)
  qed
qed

theorem main_invalid_root_witness:
  "main [''analyze_project.py'', ''locked''] (fs_of (Dir False [(''a.py'', File None None)]))
     = Traceback PermissionError
   \<and> exit_code (main [''analyze_project.py'', ''locked'']
                   (fs_of (Dir False [(''a.py'', File None None)]))) = 1"
  using main_invalid_root [of "[''analyze_project.py'', ''locked'']"
                              "fs_of (Dir False [(''a.py'', File None None)])"]
  by (simp add: fs_of_def)

subsection \<open>The ignore set\<close>

text \<open>
  Claim C4 (nothing under an ignore-set directory appears in any output). The config
  cataloger walks without the pruning that the entry-point locator applies: a
  \<open>package.json\<close> directly inside a first-level \<open>node_modules\<close> is catalogued.
\<close>

theorem config_catalog_lists_ignored_directory:
  "config_files (analyze_config_files
      (init (Dir True [(''node_modules'', Dir True [(''package.json'', File None None)])])))
     = [([''node_modules'', ''package.json''], ''Node.js dependencies and scripts'')]
   \<and> ''node_modules'' \<in> set ignore_dirs"
  by code_simp

subsection \<open>Dependency lists\<close>

lemma load_json_exists: "load_json n = Some j \<Longrightarrow> exists_node n"
  by (cases n) auto

lemma read_text_exists: "read_text n = Some t \<Longrightarrow> exists_node n"
  by (cases n) auto

lemma npm_lists_capped: "npm_lists pkg = Some (p, d) \<Longrightarrow> length p \<le> 10 \<and> length d \<le> 10"
  by (auto simp: npm_lists_def split: option.splits)

lemma analyze_dependencies_npm:
  "npm (deps (analyze_dependencies self)) =
     (case load_json (child (project_path self) ''package.json'') of
        None \<Rightarrow> npm (deps self)
      | Some pkg \<Rightarrow> (case npm_lists pkg of None \<Rightarrow> npm (deps self) | Some l \<Rightarrow> Some l))"
  by (auto simp: analyze_dependencies_def Let_def split: option.splits dest: load_json_exists)

lemma analyze_dependencies_pip:
  "pip (deps (analyze_dependencies self)) =
     (case read_text (child (project_path self) ''requirements.txt'') of
        None \<Rightarrow> pip (deps self)
      | Some t \<Rightarrow> Some (take 15 (requirement_names (file_lines t))))"
  by (auto simp: analyze_dependencies_def Let_def split: option.splits dest: read_text_exists)

text \<open>
  Claim C5 (the dependency lists never exceed their caps and keep declaration order).
  Starting from an analyzer without dependency entries, every npm list that
  \<open>_analyze_dependencies\<close> records has at most 10 names and the pip list at most 15.
  When the manifest loads to an object whose \<open>dependencies\<close> and
  \<open>devDependencies\<close> (an absent key counts as the empty object) are objects, the two
  npm lists are the first 10 keys of each, in the order of the manifest; when the
  requirements file can be read, the pip list is the first 15 names of its lines, in
  file order.
\<close>

theorem dependency_lists_capped:
  "(npm (deps self) = None \<longrightarrow>
      (\<forall>p d. npm (deps (analyze_dependencies self)) = Some (p, d)
              \<longrightarrow> length p \<le> 10 \<and> length d \<le> 10))
   \<and> (pip (deps self) = None \<longrightarrow>
      (\<forall>l. pip (deps (analyze_dependencies self)) = Some l \<longrightarrow> length l \<le> 15))
   \<and> (load_json (child (project_path self) ''package.json'') = Some pkg
        \<and> py_get pkg ''dependencies'' = Some (JObj a)
        \<and> py_get pkg ''devDependencies'' = Some (JObj b)
      \<longrightarrow> npm (deps (analyze_dependencies self)) = Some (take 10 (map fst a), take 10 (map fst b)))
   \<and> (read_text (child (project_path self) ''requirements.txt'') = Some t
      \<longrightarrow> pip (deps (analyze_dependencies self)) = Some (take 15 (requirement_names (file_lines t))))"
proof (intro conjI impI allI)
  fix p d
  assume "npm (deps self) = None" "npm (deps (analyze_dependencies self)) = Some (p, d)"
  then have "\<exists>pkg. npm_lists pkg = Some (p, d)"
    by (auto simp: analyze_dependencies_npm split: option.splits)
  then show "length p \<le> 10" "length d \<le> 10"
    using npm_lists_capped by blast+
next
  fix l
  assume "pip (deps self) = None" "pip (deps (analyze_dependencies self)) = Some l"
  then show "length l \<le> 15"
    by (auto simp: analyze_dependencies_pip split: option.splits)
next
  assume "load_json (child (project_path self) ''package.json'') = Some pkg
        \<and> py_get pkg ''dependencies'' = Some (JObj a)
        \<and> py_get pkg ''devDependencies'' = Some (JObj b)"
  then show "npm (deps (analyze_dependencies self)) = Some (take 10 (map fst a), take 10 (map fst b))"
    by (simp add: analyze_dependencies_npm npm_lists_def)
next
  assume "read_text (child (project_path self) ''requirements.txt'') = Some t"
  then show "pip (deps (analyze_dependencies self)) = Some (take 15 (requirement_names (file_lines t)))"
    by (simp add: analyze_dependencies_pip)
qed

theorem dependency_lists_capped_witness:
  "npm (deps (analyze_dependencies (init capped_root)))
     = Some ([''a'', ''b'', ''c'', ''d'', ''e'', ''f'', ''g'', ''h'', ''i'', ''j''], [])
   \<and> pip (deps (analyze_dependencies (init capped_root)))
     = Some [''r1'', ''r2'', ''r3'', ''r4'', ''r5'', ''r6'', ''r7'', ''r8'', ''r9'', ''r10'',
             ''r11'', ''r12'', ''r13'', ''r14'', ''r15'']"
proof -
  have 1: "load_json (child (project_path (init capped_root)) ''package.json'')
             = Some (JObj [(''dependencies'', JObj many_deps)])"
    by (simp add: init_def capped_root_def)
  have 2: "py_get (JObj [(''dependencies'', JObj many_deps)]) ''dependencies'' = Some (JObj many_deps)"
    by simp
  have 3: "py_get (JObj [(''dependencies'', JObj many_deps)]) ''devDependencies'' = Some (JObj [])"
    by simp
  have 4: "read_text (child (project_path (init capped_root)) ''requirements.txt'')
     = Some ''r1\<newline>r2\<newline>r3\<newline>r4\<newline>r5\<newline>r6\<newline>r7\<newline>r8\<newline>r9\<newline>r10\<newline>r11\<newline>r12\<newline>r13\<newline>r14\<newline>r15\<newline>r16\<newline>r17\<newline>''"
    by (simp add: init_def capped_root_def)
  have 5: "take 15 (requirement_names (file_lines ''r1\<newline>r2\<newline>r3\<newline>r4\<newline>r5\<newline>r6\<newline>r7\<newline>r8\<newline>r9\<newline>r10\<newline>r11\<newline>r12\<newline>r13\<newline>r14\<newline>r15\<newline>r16\<newline>r17\<newline>''))
     = [''r1'', ''r2'', ''r3'', ''r4'', ''r5'', ''r6'', ''r7'', ''r8'', ''r9'', ''r10'',
             ''r11'', ''r12'', ''r13'', ''r14'', ''r15'']"
    by code_simp
  have 6: "take 10 (map fst many_deps) = [''a'', ''b'', ''c'', ''d'', ''e'', ''f'', ''g'', ''h'', ''i'', ''j'']"
    by code_simp
  from dependency_lists_capped [of "init capped_root" "JObj [(''dependencies'', JObj many_deps)]"
        many_deps "[]"  "''r1\<newline>r2\<newline>r3\<newline>r4\<newline>r5\<newline>r6\<newline>r7\<newline>r8\<newline>r9\<newline>r10\<newline>r11\<newline>r12\<newline>r13\<newline>r14\<newline>r15\<newline>r16\<newline>r17\<newline>''"]
  show ?thesis
    unfolding 5 6 using 1 2 3 4 by simp
qed

subsection \<open>Classifier priority\<close>

lemma framework_label_cases:
  "framework_label ks \<in> {''React/Next.js Project'', ''Vue.js Project'',
                           ''Node.js/Express Project'', ''Node.js Project''}"
  by (simp add: framework_label_def)

lemma manifest_rule_labels:
  "manifest_rule pkg = Assigned t \<Longrightarrow>
     t \<in> {''React/Next.js Project'', ''Vue.js Project'', ''Node.js/Express Project'', ''Node.js Project''}"
  using framework_label_cases
  by (auto simp: manifest_rule_def split: option.splits if_splits)

lemma manifest_rule_object:
  assumes "''dependencies'' \<in> set (map fst kv) \<or> ''devDependencies'' \<in> set (map fst kv)"
    and "py_get (JObj kv) ''dependencies'' = Some (JObj a)"
    and "py_get (JObj kv) ''devDependencies'' = Some (JObj b)"
  shows "manifest_rule (JObj kv) =
           Assigned (if ''react'' \<in> set (map fst a) \<union> set (map fst b)
                        \<or> ''next'' \<in> set (map fst a) \<union> set (map fst b)
                     then ''React/Next.js Project''
                     else if ''vue'' \<in> set (map fst a) \<union> set (map fst b)
                     then ''Vue.js Project''
                     else if ''express'' \<in> set (map fst a) \<union> set (map fst b)
                     then ''Node.js/Express Project''
                     else ''Node.js Project'')"
proof -
  from assms(2,3) have "merged_keys (JObj kv) = Some (map fst a @ map fst b)"
    by (simp add: merged_keys_def)
  with assms(1) show ?thesis
    by (auto simp: manifest_rule_def framework_label_def)
qed

lemma node_branch_taken:
  assumes "project_path self = Dir True es"
    and "(''package.json'', f) \<in> set es" and "is_file f"
  shows "identify_project_type self =
           Inr (case load_json (child (project_path self) ''package.json'') of
                  None \<Rightarrow> self\<lparr>project_type := Some ''JavaScript Project''\<rparr>
                | Some pkg \<Rightarrow>
                    (case manifest_rule pkg of
                       Raised \<Rightarrow> self\<lparr>project_type := Some ''JavaScript Project''\<rparr>
                     | Unassigned \<Rightarrow> self
                     | Assigned t \<Rightarrow> self\<lparr>project_type := Some t\<rparr>))"
proof -
  have in_root: "''package.json'' \<in> set [fst f. f \<leftarrow> es, is_file (snd f)]"
    using assms(2,3) by force
  with assms(1) show ?thesis
    by (simp add: identify_project_type_def split: option.splits tried.splits)
qed

text \<open>
  Claim C7 (with both a \<open>package.json\<close> and a \<open>Cargo.toml\<close> file at the root, the
  Node-style rule classifies, never the Rust rule). On a listable root with both
  files, \<open>_identify_project_type\<close> returns exactly what its \<open>package.json\<close> branch
  computes. A manifest that cannot be opened or parsed gives the JavaScript label. A
  manifest that is an object with a \<open>dependencies\<close> or a \<open>devDependencies\<close> key,
  both objects where present, gives the React/Next.js label when \<open>react\<close> or \<open>next\<close>
  is among the keys of the two, else the Vue label for \<open>vue\<close>, else the Express
  label for \<open>express\<close>, else the Node label. From a fresh analyzer the project type
  left is one of these five labels or still unassigned, and never the Rust label.
\<close>

theorem node_manifest_before_rust_manifest:
  assumes "project_path self = Dir True es"
    and "(''package.json'', f) \<in> set es" and "is_file f"
    and "(''Cargo.toml'', g) \<in> set es" and "is_file g"
  shows "identify_project_type self =
           Inr (case load_json (child (project_path self) ''package.json'') of
                  None \<Rightarrow> self\<lparr>project_type := Some ''JavaScript Project''\<rparr>
                | Some pkg \<Rightarrow>
                    (case manifest_rule pkg of
                       Raised \<Rightarrow> self\<lparr>project_type := Some ''JavaScript Project''\<rparr>
                     | Unassigned \<Rightarrow> self
                     | Assigned t \<Rightarrow> self\<lparr>project_type := Some t\<rparr>))
       \<and> (load_json (child (project_path self) ''package.json'') = None \<longrightarrow>
            identify_project_type self = Inr (self\<lparr>project_type := Some ''JavaScript Project''\<rparr>))
       \<and> (\<forall>kv a b.
            load_json (child (project_path self) ''package.json'') = Some (JObj kv)
            \<and> (''dependencies'' \<in> set (map fst kv) \<or> ''devDependencies'' \<in> set (map fst kv))
            \<and> py_get (JObj kv) ''dependencies'' = Some (JObj a)
            \<and> py_get (JObj kv) ''devDependencies'' = Some (JObj b)
            \<longrightarrow> identify_project_type self =
                  Inr (self\<lparr>project_type := Some
                         (if ''react'' \<in> set (map fst a) \<union> set (map fst b)
                             \<or> ''next'' \<in> set (map fst a) \<union> set (map fst b)
                          then ''React/Next.js Project''
                          else if ''vue'' \<in> set (map fst a) \<union> set (map fst b)
                          then ''Vue.js Project''
                          else if ''express'' \<in> set (map fst a) \<union> set (map fst b)
                          then ''Node.js/Express Project''
                          else ''Node.js Project'')\<rparr>))
       \<and> (project_type self = None \<longrightarrow>
            (\<exists>self'. identify_project_type self = Inr self'
               \<and> project_type self' \<noteq> Some ''Rust Project''
               \<and> project_type self' \<in> {Some ''React/Next.js Project'', Some ''Vue.js Project'',
                                         Some ''Node.js/Express Project'', Some ''Node.js Project'',
                                         Some ''JavaScript Project'', None}))"
proof (intro conjI impI allI)
  note branch = node_branch_taken [OF assms(1,2,3)]
  show "identify_project_type self =
           Inr (case load_json (child (project_path self) ''package.json'') of
                  None \<Rightarrow> self\<lparr>project_type := Some ''JavaScript Project''\<rparr>
                | Some pkg \<Rightarrow>
                    (case manifest_rule pkg of
                       Raised \<Rightarrow> self\<lparr>project_type := Some ''JavaScript Project''\<rparr>
                     | Unassigned \<Rightarrow> self
                     | Assigned t \<Rightarrow> self\<lparr>project_type := Some t\<rparr>))"
    by (rule branch)
  show "identify_project_type self = Inr (self\<lparr>project_type := Some ''JavaScript Project''\<rparr>)"
    if "load_json (child (project_path self) ''package.json'') = None"
    using branch that by simp
  show "identify_project_type self =
                  Inr (self\<lparr>project_type := Some
                         (if ''react'' \<in> set (map fst a) \<union> set (map fst b)
                             \<or> ''next'' \<in> set (map fst a) \<union> set (map fst b)
                          then ''React/Next.js Project''
                          else if ''vue'' \<in> set (map fst a) \<union> set (map fst b)
                          then ''Vue.js Project''
                          else if ''express'' \<in> set (map fst a) \<union> set (map fst b)
                          then ''Node.js/Express Project''
                          else ''Node.js Project'')\<rparr>)"
    if h: "load_json (child (project_path self) ''package.json'') = Some (JObj kv)
            \<and> (''dependencies'' \<in> set (map fst kv) \<or> ''devDependencies'' \<in> set (map fst kv))
            \<and> py_get (JObj kv) ''dependencies'' = Some (JObj a)
            \<and> py_get (JObj kv) ''devDependencies'' = Some (JObj b)"
    for kv a b
  proof -
    from h have l: "load_json (child (project_path self) ''package.json'') = Some (JObj kv)"
      and k: "''dependencies'' \<in> set (map fst kv) \<or> ''devDependencies'' \<in> set (map fst kv)"
      and d: "py_get (JObj kv) ''dependencies'' = Some (JObj a)"
      and dd: "py_get (JObj kv) ''devDependencies'' = Some (JObj b)"
      by blast+
    define lab where "lab =
        (if ''react'' \<in> set (map fst a) \<union> set (map fst b)
            \<or> ''next'' \<in> set (map fst a) \<union> set (map fst b)
         then ''React/Next.js Project''
         else if ''vue'' \<in> set (map fst a) \<union> set (map fst b)
         then ''Vue.js Project''
         else if ''express'' \<in> set (map fst a) \<union> set (map fst b)
         then ''Node.js/Express Project''
         else ''Node.js Project'')"
    have mr: "manifest_rule (JObj kv) = Assigned lab"
      unfolding lab_def by (rule manifest_rule_object [OF k d dd])
    from branch l mr have "identify_project_type self = Inr (self\<lparr>project_type := Some lab\<rparr>)"
      by simp
    then show ?thesis unfolding lab_def .
  qed
  show "\<exists>self'. identify_project_type self = Inr self'
               \<and> project_type self' \<noteq> Some ''Rust Project''
               \<and> project_type self' \<in> {Some ''React/Next.js Project'', Some ''Vue.js Project'',
                                         Some ''Node.js/Express Project'', Some ''Node.js Project'',
                                         Some ''JavaScript Project'', None}"
    if fresh: "project_type self = None"
  proof (cases "load_json (child (project_path self) ''package.json'')")
    case None
    with branch show ?thesis by simp
  next
    case (Some pkg)
    show ?thesis
    proof (cases "manifest_rule pkg")
      case Raised
      with Some branch show ?thesis by simp
    next
      case Unassigned
      with Some branch fresh show ?thesis by simp
    next
      case (Assigned t)
      with Some branch manifest_rule_labels [OF Assigned] show ?thesis by auto
    qed
  qed
qed

theorem node_manifest_before_rust_manifest_witness:
  "identify_project_type (init node_and_rust_root)
     = Inr ((init node_and_rust_root)\<lparr>project_type := Some ''Vue.js Project''\<rparr>)
   \<and> ''Vue.js Project'' \<noteq> ''Rust Project''"
proof -
  let ?pkg = "[(''devDependencies'', JObj [(''vue'', JStr ''^3.0.0'')])]"
  let ?es = "[(''Cargo.toml'', File (Some ''[package]'') None),
              (''package.json'', File (Some ''{}'') (Some (JObj ?pkg)))]"
  have 1: "project_path (init node_and_rust_root) = Dir True ?es"
    by (simp add: init_def node_and_rust_root_def)
  have 2: "(''package.json'', File (Some ''{}'') (Some (JObj ?pkg))) \<in> set ?es" by simp
  have 3: "is_file (File (Some ''{}'') (Some (JObj ?pkg)))" by simp
  have 4: "(''Cargo.toml'', File (Some ''[package]'') None) \<in> set ?es" by simp
  have 5: "is_file (File (Some ''[package]'') None)" by simp
  have l: "load_json (child (project_path (init node_and_rust_root)) ''package.json'')
             = Some (JObj ?pkg)"
    by (simp add: init_def node_and_rust_root_def)
  have k: "''dependencies'' \<in> set (map fst ?pkg) \<or> ''devDependencies'' \<in> set (map fst ?pkg)"
    by simp
  have d: "py_get (JObj ?pkg) ''dependencies'' = Some (JObj [])" by simp
  have dd: "py_get (JObj ?pkg) ''devDependencies'' = Some (JObj [(''vue'', JStr ''^3.0.0'')])"
    by simp
  from node_manifest_before_rust_manifest [OF 1 2 3 4 5]
  have "\<forall>kv a b.
            load_json (child (project_path (init node_and_rust_root)) ''package.json'') = Some (JObj kv)
            \<and> (''dependencies'' \<in> set (map fst kv) \<or> ''devDependencies'' \<in> set (map fst kv))
            \<and> py_get (JObj kv) ''dependencies'' = Some (JObj a)
            \<and> py_get (JObj kv) ''devDependencies'' = Some (JObj b)
            \<longrightarrow> identify_project_type (init node_and_rust_root) =
                  Inr ((init node_and_rust_root)\<lparr>project_type := Some
                         (if ''react'' \<in> set (map fst a) \<union> set (map fst b)
                             \<or> ''next'' \<in> set (map fst a) \<union> set (map fst b)
                          then ''React/Next.js Project''
                          else if ''vue'' \<in> set (map fst a) \<union> set (map fst b)
                          then ''Vue.js Project''
                          else if ''express'' \<in> set (map fst a) \<union> set (map fst b)
                          then ''Node.js/Express Project''
                          else ''Node.js Project'')\<rparr>)"
    by blast
  from this [rule_format, of ?pkg "[]" "[(''vue'', JStr ''^3.0.0'')]"] l k d dd
  show ?thesis by simp
qed

subsection \<open>Entry points under hidden directories\<close>


declare os_walk.simps [simp del]







subsection \<open>The extension histogram\<close>

lemma total_bump: "total (bump k h) = Suc (total h)"
  by (induction k h rule: bump.induct) (auto simp: total_def)

lemma all_files_nonempty: "p \<in> set (all_files d) \<Longrightarrow> p \<noteq> []"
  and files_in_nonempty: "p \<in> set (files_in es) \<Longrightarrow> p \<noteq> []"
proof (induction d and es arbitrary: p and p rule: all_files_files_in.induct)
  case (1 d)
  then show ?case by (cases "iterdir d") auto
next
  case 2
  then show ?case by simp
next
  case (3 it rest)
  then show ?case by (auto split: if_splits)
qed

declare all_files.simps [simp del]

lemma counted_single: "counted k [n] = (1 \<le> k \<and> \<not> skipped_hidden n)"
  by (auto simp: counted_def)

lemma counted_cons:
  "p \<noteq> [] \<Longrightarrow> counted k (n # p) =
     (\<not> skipped_hidden n \<and> n \<notin> set ignore_dirs \<and> 1 \<le> k \<and> counted (k - 1) p)"
  by (auto simp: counted_def)

lemma filter_counted_sub:
  assumes "\<forall>p \<in> set ps. p \<noteq> []"
  shows "length (filter (counted k) (map ((#) n) ps)) =
           (if \<not> skipped_hidden n \<and> n \<notin> set ignore_dirs \<and> 1 \<le> k
            then length (filter (counted (k - 1)) ps) else 0)"
  using assms by (induction ps) (auto simp: counted_cons)

lemma filter_counted_none:
  assumes "\<forall>p \<in> set ps. p \<noteq> []" and "skipped_hidden n \<or> n \<in> set ignore_dirs"
  shows "filter (counted k) (map ((#) n) ps) = []"
  using assms by (induction ps) (auto simp: counted_cons)

declare scan_directory.simps [simp del]

lemma file_not_dir: "is_file n \<Longrightarrow> \<not> is_dir n"
  by (cases n) auto

lemma scan_total:
  "is_dir d \<Longrightarrow> \<exists>st'. scan_directory d depth md st = Inr st'
      \<and> total st' = total st + length (filter (counted (md + 1 - depth)) (all_files d))"
  and scan_items_total:
  "depth \<le> md \<Longrightarrow> \<exists>st'. scan_items es depth md st = Inr st'
      \<and> total st' = total st + length (filter (counted (md + 1 - depth)) (files_in es))"
proof (induction d depth md st and es depth md st rule: scan_directory_scan_items.induct)
  case (1 path depth max_depth stats)
  from "1.prems" obtain r es where p: "path = Dir r es" by (cases path) auto
  show ?case
  proof (cases "depth > max_depth")
    case True
    then have "max_depth + 1 - depth = 0" by simp
    moreover have "filter (counted 0) (all_files path) = []"
      using all_files_nonempty by (auto simp: filter_empty_conv counted_def)
    ultimately show ?thesis using True by (simp add: scan_directory.simps)
  next
    case False
    show ?thesis
    proof (cases r)
      case True
      with p have it: "iterdir path = Inr es" by simp
      from False have le: "depth \<le> max_depth" by simp
      from "1.IH" [OF False it le] it False show ?thesis
        by (simp add: all_files.simps scan_directory.simps)
    next
      case False
      with p \<open>\<not> depth > max_depth\<close> show ?thesis
        by (simp add: all_files.simps scan_directory.simps)
    qed
  qed
next
  case (2 depth max_depth stats)
  then show ?case by simp
next
  case (3 it rest depth max_depth stats)
  let ?k = "max_depth + 1 - depth"
  from "3.prems" have k: "1 \<le> ?k" by simp
  have km: "?k - 1 = max_depth + 1 - (depth + 1)" by simp
  have ne: "\<forall>p \<in> set (all_files (snd it)). p \<noteq> []" using all_files_nonempty by blast
  show ?case
  proof (cases "skipped_hidden (fst it)")
    case True
    from "3.IH"(1) [OF True "3.prems"]
    obtain st' where r: "scan_items rest depth max_depth stats = Inr st'"
      and t: "total st' = total stats + length (filter (counted ?k) (files_in rest))" by blast
    have "filter (counted ?k)
            (if is_file (snd it) then [[fst it]] else map ((#) (fst it)) (all_files (snd it))) = []"
      using True ne by (simp add: counted_single filter_counted_none)
    with r t True show ?thesis by simp
  next
    case nh: False
    show ?thesis
    proof (cases "is_dir (snd it) \<and> fst it \<notin> set ignore_dirs")
      case True
      then have dir: "is_dir (snd it)" and ni: "fst it \<notin> set ignore_dirs" by auto
      from "3.IH"(2) [OF nh True dir]
      obtain st1 where r1: "scan_directory (snd it) (depth + 1) max_depth stats = Inr st1"
        and t1: "total st1 = total stats
                   + length (filter (counted (max_depth + 1 - (depth + 1))) (all_files (snd it)))"
        by blast
      from "3.IH"(3) [OF nh True r1 "3.prems"]
      obtain st' where r: "scan_items rest depth max_depth st1 = Inr st'"
        and t: "total st' = total st1 + length (filter (counted ?k) (files_in rest))" by blast
      from dir have nf: "\<not> is_file (snd it)" by (cases "snd it") auto
      have "length (filter (counted ?k) (map ((#) (fst it)) (all_files (snd it))))
              = length (filter (counted (max_depth + 1 - (depth + 1))) (all_files (snd it)))"
        using filter_counted_sub [OF ne, of ?k "fst it"] nh ni k km by simp
      with r t r1 t1 nh True nf show ?thesis by simp
    next
      case nd: False
      show ?thesis
      proof (cases "is_file (snd it)")
        case True
        from "3.IH"(4) [OF nh nd True "3.prems"]
        obtain st' where r: "scan_items rest depth max_depth (bump (lower (suffix_of (fst it))) stats) = Inr st'"
          and t: "total st' = total (bump (lower (suffix_of (fst it))) stats)
                     + length (filter (counted ?k) (files_in rest))" by blast
        with nh nd True k file_not_dir [OF True] show ?thesis
          by (auto simp: total_bump counted_single)
      next
        case False
        from "3.IH"(5) [OF nh nd False "3.prems"]
        obtain st' where r: "scan_items rest depth max_depth stats = Inr st'"
          and t: "total st' = total stats + length (filter (counted ?k) (files_in rest))" by blast
        have "filter (counted ?k) (map ((#) (fst it)) (all_files (snd it))) = []"
        proof (cases "is_dir (snd it)")
          case True
          with nd have "fst it \<in> set ignore_dirs" by simp
          then show ?thesis using ne by (simp add: filter_counted_none)
        next
          case nd2: False
          with False have "snd it = Missing" by (cases "snd it") auto
          then show ?thesis by (simp add: all_files.simps)
        qed
        with r t nh nd False show ?thesis by auto
      qed
    qed
  qed
qed

text \<open>
  Claim C9, as stated (the histogram's total equals the number of non-hidden,
  non-ignored files within the depth bound), fails: the walk counts the allow-listed
  \<open>.env\<close>, whose name starts with a dot. A root holding only \<open>.env\<close> has a histogram
  total of 1 and no non-hidden file.
\<close>

theorem allow_listed_env_file_counted:
  "scan_directory (Dir True [(''.env'', File None None)]) 0 5 [] = Inr [([], 1)]
   \<and> total [([], 1)] = 1
   \<and> startswith ''.env'' ''.''
   \<and> length (filter (non_hidden_non_ignored (5 + 1))
               (all_files (Dir True [(''.env'', File None None)]))) = 0"
  by code_simp

text \<open>
  Claim C9, amended: on every directory the statistics walk returns, and the sum of
  the histogram's counts equals the number of files reachable by listing whose path
  has no skipped name (a name with a leading dot other than \<open>.env\<close> and
  \<open>.env.example\<close>), no directory in the ignore set, and at most \<open>max_depth + 1\<close>
  components (the file's directory is at most \<open>max_depth\<close> levels below the root;
  5 by default).
\<close>

theorem histogram_total_counts_walked_files:
  assumes "is_dir root"
  shows "\<exists>h. scan_directory root 0 max_depth [] = Inr h
           \<and> total h = length (filter (counted (max_depth + 1)) (all_files root))"
  using scan_total [OF assms, of 0 max_depth "[]"] by (simp add: total_def)

theorem histogram_total_counts_walked_files_witness:
  "\<exists>h. scan_directory walk_root 0 5 [] = Inr h \<and> total h = 3"
proof -
  have d: "is_dir walk_root" by (simp add: walk_root_def)
  have n: "length (filter (counted (5 + 1)) (all_files walk_root)) = 3" by code_simp
  from histogram_total_counts_walked_files [OF d, of 5] show ?thesis
    unfolding n .
qed

subsection \<open>The requirements-file parser\<close>








subsection \<open>The rendered tree\<close>













declare add_to_tree.simps [simp del]










end
